theory Spec2Isabelle
  imports Main "HOL-Library.Log_Nat" "HOL-Library.Sublist"
begin

section \<open>Python values used by the indexing service\<close>

text \<open>
  The development embeds \<^verbatim>\<open>cmd/nlp/nlp/services/indexing.py\<close>: the constructor of
  \<^verbatim>\<open>IndexingService\<close> and its coroutine \<^verbatim>\<open>process_message\<close>.

  A Python \<^verbatim>\<open>str\<close> is a sequence of Unicode code points, so it is a list of naturals here;
  \<open>length\<close> counts what Python's \<^verbatim>\<open>len\<close> counts. ASCII literals are written with \<open>u\<close>.
\<close>

type_synonym pystr = "nat list"

definition u :: "string \<Rightarrow> pystr" where
  "u s = map of_char s"

text \<open>
  Exceptions are values. \<^verbatim>\<open>except Exception\<close> catches the instances of \<^verbatim>\<open>Exception\<close> only:
  \<^verbatim>\<open>asyncio.CancelledError\<close>, \<^verbatim>\<open>KeyboardInterrupt\<close> and \<^verbatim>\<open>SystemExit\<close> derive from
  \<^verbatim>\<open>BaseException\<close> directly and pass through it.
\<close>

datatype exn =
    ValueError string
  | OverflowError string
  | ZeroDivisionError string
  | OtherException string
  | NonException string

fun is_Exception :: "exn \<Rightarrow> bool" where
  "is_Exception (NonException _) = False"
| "is_Exception _ = True"

subsection \<open>String methods\<close>

text \<open>
  \<^verbatim>\<open>str.isspace\<close> of one code point: the Unicode white space that \<^verbatim>\<open>str.strip()\<close> removes.
\<close>

definition py_isspace :: "nat \<Rightarrow> bool" where
  "py_isspace c \<longleftrightarrow>
     (9 \<le> c \<and> c \<le> 13) \<or> (28 \<le> c \<and> c \<le> 32) \<or> c = 133 \<or> c = 160 \<or> c = 5760 \<or>
     (8192 \<le> c \<and> c \<le> 8202) \<or> c = 8232 \<or> c = 8233 \<or> c = 8239 \<or> c = 8287 \<or> c = 12288"

text \<open>\<^verbatim>\<open>s.strip()\<close> and \<^verbatim>\<open>s.strip(chars)\<close>.\<close>

definition strip :: "pystr \<Rightarrow> pystr" where
  "strip s = rev (dropWhile py_isspace (rev (dropWhile py_isspace s)))"

definition strip_chars :: "pystr \<Rightarrow> pystr \<Rightarrow> pystr" where
  "strip_chars chars s =
     rev (dropWhile (\<lambda>c. c \<in> set chars) (rev (dropWhile (\<lambda>c. c \<in> set chars) s)))"

text \<open>
  \<^verbatim>\<open>s.replace(old, '')\<close>: the occurrences of \<open>old\<close> are removed from left to right,
  without overlap.
\<close>

function remove_all :: "pystr \<Rightarrow> pystr \<Rightarrow> pystr" where
  "remove_all old [] = []"
| "remove_all old (c # cs) =
     (if old \<noteq> [] \<and> prefix old (c # cs) then remove_all old (drop (length old) (c # cs))
      else c # remove_all old cs)"
  by pat_completeness auto
termination
  by (relation "measure (\<lambda>(old, s). length s)") auto

subsection \<open>\<^verbatim>\<open>int(s, 16)\<close> and \<^verbatim>\<open>uuid.UUID(s)\<close>\<close>

text \<open>
  \<^verbatim>\<open>int\<close> first maps the string to ASCII: a code point below 127 stays, Unicode white
  space becomes a blank, a Unicode decimal digit becomes its ASCII digit, and anything
  else becomes \<^verbatim>\<open>?\<close>, which no literal contains. \<open>decimal_zeros\<close> lists the code points
  of the digit zero of every decimal script (Unicode 14); the nine that follow each are
  its digits one to nine.
\<close>

definition decimal_zeros :: "nat list" where
  "decimal_zeros =
     [48, 1632, 1776, 1984, 2406, 2534, 2662, 2790, 2918, 3046, 3174, 3302, 3430, 3558,
      3664, 3792, 3872, 4160, 4240, 6112, 6160, 6470, 6608, 6784, 6800, 6992, 7088, 7232,
      7248, 42528, 43216, 43264, 43472, 43504, 43600, 44016, 65296, 66720, 68912, 69734,
      69872, 69942, 70096, 70384, 70736, 70864, 71248, 71360, 71472, 71904, 72016, 72784,
      73040, 73120, 92768, 92864, 93008, 120782, 120792, 120802, 120812, 120822, 123200,
      123632, 125264, 130032]"

definition unicode_decimal :: "nat \<Rightarrow> nat option" where
  "unicode_decimal c =
     (case filter (\<lambda>z. z \<le> c \<and> c < z + 10) decimal_zeros of
        [] \<Rightarrow> None
      | z # _ \<Rightarrow> Some (c - z))"

definition to_ascii :: "nat \<Rightarrow> nat" where
  "to_ascii c =
     (if c < 127 then c
      else if py_isspace c then 32
      else case unicode_decimal c of Some d \<Rightarrow> 48 + d | None \<Rightarrow> 63)"

text \<open>The white space of C's \<^verbatim>\<open>isspace\<close>, which the parser skips at both ends.\<close>

definition c_isspace :: "nat \<Rightarrow> bool" where
  "c_isspace c \<longleftrightarrow> (9 \<le> c \<and> c \<le> 13) \<or> c = 32"

definition digit_value :: "nat \<Rightarrow> nat option" where
  "digit_value c =
     (if 48 \<le> c \<and> c \<le> 57 then Some (c - 48)
      else if 97 \<le> c \<and> c \<le> 102 then Some (c - 87)
      else if 65 \<le> c \<and> c \<le> 70 then Some (c - 55)
      else None)"

text \<open>
  The digits, with single underscores between them; the flag says that the previous
  character was an underscore. The result is the value and the unread rest.
\<close>

fun scan_digits :: "bool \<Rightarrow> nat \<Rightarrow> pystr \<Rightarrow> (nat \<times> pystr) option" where
  "scan_digits prev acc [] = (if prev then None else Some (acc, []))"
| "scan_digits prev acc (c # cs) =
     (if c = 95 then (if prev then None else scan_digits True acc cs)
      else case digit_value c of
             Some d \<Rightarrow> scan_digits False (16 * acc + d) cs
           | None \<Rightarrow> (if prev then None else Some (acc, c # cs)))"

definition skip_sign :: "pystr \<Rightarrow> bool \<times> pystr" where
  "skip_sign s = (case s of [] \<Rightarrow> (False, [])
                  | c # cs \<Rightarrow> if c = 43 then (False, cs) else if c = 45 then (True, cs)
                             else (False, c # cs))"

text \<open>\<^verbatim>\<open>0x\<close> or \<^verbatim>\<open>0X\<close>, and one underscore after it.\<close>

definition skip_prefix :: "pystr \<Rightarrow> pystr" where
  "skip_prefix s =
     (case s of
        c # x # cs \<Rightarrow>
          if c = 48 \<and> (x = 120 \<or> x = 88)
          then (case cs of [] \<Rightarrow> [] | y # ys \<Rightarrow> if y = 95 then ys else y # ys)
          else s
      | _ \<Rightarrow> s)"

definition invalid_literal :: exn where
  "invalid_literal = ValueError ''invalid literal for int() with base 16''"

definition int16 :: "pystr \<Rightarrow> exn + int" where
  "int16 s =
     (let (neg, t) = skip_sign (dropWhile c_isspace (map to_ascii s));
          d = skip_prefix t
      in case d of
           [] \<Rightarrow> Inl invalid_literal
         | c # _ \<Rightarrow>
             if digit_value c = None then Inl invalid_literal
             else (case scan_digits False 0 d of
                     None \<Rightarrow> Inl invalid_literal
                   | Some (v, rest) \<Rightarrow>
                       if dropWhile c_isspace rest = []
                       then Inr (if neg then - int v else int v)
                       else Inl invalid_literal))"

text \<open>A \<^verbatim>\<open>uuid.UUID\<close> object is its 128-bit integer; two of them are equal when these are.\<close>

datatype UUID = UUID int

text \<open>
  \<^verbatim>\<open>uuid.UUID(hex)\<close>: \<^verbatim>\<open>urn:\<close> and \<^verbatim>\<open>uuid:\<close> are removed, then braces at both ends,
  then hyphens; 32 characters must remain, read as a hexadecimal integer.
\<close>

definition uuid_UUID :: "pystr \<Rightarrow> exn + UUID" where
  "uuid_UUID hex =
     (let h = remove_all (u ''uuid:'') (remove_all (u ''urn:'') hex);
          h = remove_all (u ''-'') (strip_chars (u ''{}'') h)
      in if length h \<noteq> 32 then Inl (ValueError ''badly formed hexadecimal UUID string'')
         else case int16 h of
                Inl e \<Rightarrow> Inl e
              | Inr i \<Rightarrow>
                  if \<not> (0 \<le> i \<and> i < 2 ^ 128)
                  then Inl (ValueError ''int is out-of-range (need a 128-bit value)'')
                  else Inr (UUID i))"

subsection \<open>True division of integers and \<^verbatim>\<open>int()\<close> of a float\<close>

text \<open>
  \<^verbatim>\<open>a / b\<close> on two Python ints is the IEEE-754 double nearest to the exact quotient
  (round half to even); it raises \<^verbatim>\<open>ZeroDivisionError\<close> for \<^verbatim>\<open>b == 0\<close> and
  \<^verbatim>\<open>OverflowError\<close> when the rounded quotient is not a finite double.
  A finite double is \<open>mantissa * 2 ^ exponent\<close>, kept exactly.
\<close>

datatype pyfloat = Float (mantissa: int) (exponent: int)

definition round_half_even :: "nat \<Rightarrow> nat \<Rightarrow> nat" where
  "round_half_even p q =
     (let k = p div q; r = p mod q
      in if 2 * r < q then k
         else if q < 2 * r then k + 1
         else if even k then k else k + 1)"

text \<open>\<open>scaled_le q d p\<close> is \<open>q * 2 ^ d \<le> p\<close> for an integer \<open>d\<close> of either sign.\<close>

definition scaled_le :: "nat \<Rightarrow> int \<Rightarrow> nat \<Rightarrow> bool" where
  "scaled_le q d p = (if 0 \<le> d then q * 2 ^ nat d \<le> p else q \<le> p * 2 ^ nat (- d))"

text \<open>The binary exponent of \<open>p / q\<close>: the \<open>e\<close> with \<open>2 ^ e \<le> p / q < 2 ^ (e + 1)\<close>.\<close>

definition binexp :: "nat \<Rightarrow> nat \<Rightarrow> int" where
  "binexp p q =
     (let d = bitlen (int p) - bitlen (int q)
      in if scaled_le q d p then d else d - 1)"

text \<open>
  \<open>scaled_round p q s\<close> is \<open>p / q * 2 ^ s\<close> rounded to the nearest integer, ties to even,
  for a shift \<open>s\<close> of either sign.
\<close>

definition scaled_round :: "nat \<Rightarrow> nat \<Rightarrow> int \<Rightarrow> nat" where
  "scaled_round p q s =
     (if 0 \<le> s then round_half_even (p * 2 ^ nat s) q
      else round_half_even p (q * 2 ^ nat (- s)))"

text \<open>
  A double has 53 significant bits, so the quotient is rounded to a multiple of
  \<open>2 ^ (e - 52)\<close>, where \<open>e\<close> is its binary exponent, or \<open>- 1022\<close> for a subnormal.
\<close>

definition py_truediv :: "int \<Rightarrow> int \<Rightarrow> exn + pyfloat" where
  "py_truediv a b =
     (if b = 0 then Inl (ZeroDivisionError ''division by zero'')
      else if a = 0 then Inr (Float 0 0)
      else
        let p = nat \<bar>a\<bar>; q = nat \<bar>b\<bar>;
            e = max (binexp p q) (- 1022);
            m = scaled_round p q (52 - e)
        in if 1024 \<le> e \<or> (e = 1023 \<and> m = 2 ^ 53)
           then Inl (OverflowError ''integer division result too large for a float'')
           else Inr (Float (sgn a * sgn b * int m) (e - 52)))"

text \<open>\<^verbatim>\<open>int(x)\<close> of a finite float truncates towards zero.\<close>

definition py_int_of_float :: "pyfloat \<Rightarrow> int" where
  "py_int_of_float x =
     (if 0 \<le> exponent x then mantissa x * 2 ^ nat (exponent x)
      else sgn (mantissa x) * (\<bar>mantissa x\<bar> div 2 ^ nat (- exponent x)))"

section \<open>The constructor\<close>

text \<open>
  \<^verbatim>\<open>NLPSettings\<close> is declared in another module; the constructor reads six of its
  fields. \<^verbatim>\<open>int(self.cfg.text_chunk_size)\<close> is the identity on an integer setting.
\<close>

record NLPSettings =
  text_chunk_size :: int
  embedding_model :: pystr
  elasticsearch_url :: pystr
  elasticsearch_user :: pystr
  elasticsearch_password :: pystr
  elastic_index_name :: pystr

text \<open>
  What \<^verbatim>\<open>RecursiveCharacterTextSplitter.from_tiktoken_encoder\<close> is given:
  the encoding name, the chunk size and the chunk overlap.
\<close>

record text_splitter_args =
  encoding_name :: pystr
  chunk_size :: int
  chunk_overlap :: int

text \<open>
  \<^verbatim>\<open>chunk_size = int(self.cfg.text_chunk_size)\<close>,
  \<^verbatim>\<open>chunk_overlap = int(chunk_size/15)\<close>: a true division, then a truncation.
\<close>

definition chunk_overlap_of :: "int \<Rightarrow> exn + int" where
  "chunk_overlap_of n =
     (case py_truediv n 15 of
        Inl e \<Rightarrow> Inl e
      | Inr x \<Rightarrow> Inr (py_int_of_float x))"

text \<open>
  Lines 31 to 59. The queue, the storage, the embeddings and the vector store that the
  constructor also keeps are the collaborators of \<^verbatim>\<open>process_message\<close> below; building
  them, and the splitter of the library, is taken not to raise, so that the only
  exception of \<open>init\<close> is that of the division.
\<close>

record IndexingService =
  cfg :: NLPSettings
  text_splitter :: text_splitter_args

definition init :: "NLPSettings \<Rightarrow> exn + IndexingService" where
  "init c =
     (let n = text_chunk_size c
      in case chunk_overlap_of n of
           Inl e \<Rightarrow> Inl e
         | Inr overlap \<Rightarrow>
             Inr \<lparr>cfg = c,
                  text_splitter = \<lparr>encoding_name = u ''cl100k_base'',
                                   chunk_size = n,
                                   chunk_overlap = overlap\<rparr>\<rparr>)"

section \<open>Messages, metadata and the collaborators\<close>

text \<open>
  The protobuf message \<^verbatim>\<open>FileDataPlaintextMessage\<close>: \<^verbatim>\<open>event.metadata.source\<close> and the
  repeated field \<^verbatim>\<open>event.data\<close>, of whose items four string fields are read.
\<close>

record FileDataPlaintext =
  object_id :: pystr
  originating_object_id :: pystr
  originating_object_path :: pystr
  originating_object_converted_pdf :: pystr

record Metadata =
  source :: pystr

record FileDataPlaintextMessage =
  metadata :: Metadata
  data :: "FileDataPlaintext list"

text \<open>
  The metadata of one chunk is a dict with string keys; its values are strings, but for
  \<^verbatim>\<open>object_id\<close>, which is the \<^verbatim>\<open>UUID\<close> object. A dict literal is an association list,
  read with \<open>map_of\<close>. The same values are the keyword arguments of a log call.
\<close>

datatype pyvalue = Str pystr | Uuid UUID

type_synonym pydict = "(string \<times> pyvalue) list"

text \<open>The object that \<^verbatim>\<open>storage.download\<close> returns: a context manager with a \<^verbatim>\<open>name\<close>.\<close>

datatype tmpfile = TmpFile (name: pystr)

text \<open>
  The two info messages are f-strings of \<^verbatim>\<open>len(docs)\<close>; the second also prints the
  seconds that the upload took, which is left out.
\<close>

datatype log_event = Loading nat | Loaded nat

text \<open>
  What \<^verbatim>\<open>process_message\<close> does to the world, in the order in which it does it:
  \<^item> \<open>Print oid\<close>: \<^verbatim>\<open>print(f"object_id: {object_id}")\<close>;
  \<^item> \<open>Download oid\<close>: the call \<^verbatim>\<open>await self.storage.download(object_id)\<close>;
  \<^item> \<open>Enter file\<close>, \<open>Exit file\<close>: the outer \<^verbatim>\<open>with\<close> takes and releases the download;
  \<^item> \<open>Open n\<close>, \<open>Read n\<close>, \<open>Close n\<close>: \<^verbatim>\<open>open(file.name, 'r')\<close>, \<^verbatim>\<open>f.read()\<close> and the
    end of the inner \<^verbatim>\<open>with\<close>;
  \<^item> \<open>SplitText text\<close>: the call \<^verbatim>\<open>self.text_splitter.split_text(text)\<close>;
  \<^item> \<open>AInfo ev kw\<close>: \<^verbatim>\<open>await logger.ainfo(ev, **kw)\<close>;
  \<^item> \<open>AAddTexts docs metadata\<close>: the call \<^verbatim>\<open>await self.vector_store.aadd_texts(docs, metadata)\<close>;
  \<^item> \<open>AException e kw\<close>: \<^verbatim>\<open>await logger.aexception(e, **kw)\<close>.
\<close>

datatype effect =
    Print UUID
  | Download UUID
  | Enter tmpfile
  | Exit tmpfile
  | Open pystr
  | Read pystr
  | Close pystr
  | SplitText pystr
  | AInfo log_event pydict
  | AAddTexts "pystr list" "pydict list"
  | AException exn pydict

text \<open>
  The storage, the file system, the text splitter of the library and the vector store
  are not part of the module. Each call is answered from the effects so far, so that an
  answer may differ from one call to the next; \<open>Inl e\<close> or \<open>Some e\<close> is the call raising
  \<open>e\<close>. \<^verbatim>\<open>print\<close> and the logger do not raise, and entering and leaving a \<^verbatim>\<open>with\<close> block
  does not raise and does not swallow an exception.
\<close>

record collaborators =
  download :: "effect list \<Rightarrow> UUID \<Rightarrow> exn + tmpfile"
  open_r :: "effect list \<Rightarrow> pystr \<Rightarrow> exn option"
  read :: "effect list \<Rightarrow> pystr \<Rightarrow> exn + pystr"
  split_text :: "effect list \<Rightarrow> text_splitter_args \<Rightarrow> pystr \<Rightarrow> exn + pystr list"
  aadd_texts :: "effect list \<Rightarrow> pystr list \<Rightarrow> pydict list \<Rightarrow> exn option"

section \<open>\<^verbatim>\<open>process_message\<close>\<close>

text \<open>
  Every function below takes the effects so far, \<open>h\<close>, and returns the exception that
  leaves it, if any, with the effects that it added. The decorator \<^verbatim>\<open>aio.time\<close> of the
  coroutine measures the call and changes neither its result nor its exceptions.
\<close>

type_synonym outcome = "exn option \<times> effect list"

text \<open>Lines 86 to 94: one dict, \<^verbatim>\<open>len(docs)\<close> times.\<close>

definition build_metadata :: "pystr \<Rightarrow> UUID \<Rightarrow> FileDataPlaintext \<Rightarrow> nat \<Rightarrow> pydict list" where
  "build_metadata src oid d n =
     replicate n
       [(''source'', Str src),
        (''object_id'', Uuid oid),
        (''originating_object_id'', Str (originating_object_id d)),
        (''originating_object_path'', Str (originating_object_path d)),
        (''originating_object_pdf'', Str (originating_object_converted_pdf d))]"

text \<open>Lines 83 to 102, the body of \<^verbatim>\<open>if text.strip():\<close>.\<close>

definition index_text ::
  "IndexingService \<Rightarrow> collaborators \<Rightarrow> pystr \<Rightarrow> UUID \<Rightarrow> FileDataPlaintext \<Rightarrow> pystr \<Rightarrow>
   effect list \<Rightarrow> outcome" where
  "index_text self env src oid d text h =
     (case split_text env h (text_splitter self) text of
        Inl e \<Rightarrow> (Some e, [SplitText text])
      | Inr docs \<Rightarrow>
          let metas = build_metadata src oid d (length docs);
              es = [SplitText text,
                    AInfo (Loading (length docs)) [(''object_id'', Uuid oid)],
                    AAddTexts docs metas]
          in (case aadd_texts env (h @ [SplitText text,
                      AInfo (Loading (length docs)) [(''object_id'', Uuid oid)]]) docs metas of
                Some e \<Rightarrow> (Some e, es)
              | None \<Rightarrow> (None, es @ [AInfo (Loaded (length docs)) [(''object_id'', Uuid oid)]])))"

text \<open>Lines 76 to 102, the inner \<^verbatim>\<open>with open(file.name, 'r') as f:\<close>.\<close>

definition read_file ::
  "IndexingService \<Rightarrow> collaborators \<Rightarrow> pystr \<Rightarrow> UUID \<Rightarrow> FileDataPlaintext \<Rightarrow> pystr \<Rightarrow>
   effect list \<Rightarrow> outcome" where
  "read_file self env src oid d n h =
     (case open_r env h n of
        Some e \<Rightarrow> (Some e, [Open n])
      | None \<Rightarrow>
          let (r, es) =
                (case read env (h @ [Open n]) n of
                   Inl e \<Rightarrow> (Some e, [Read n])
                 | Inr text \<Rightarrow>
                     if strip text \<noteq> []
                     then (let (r, es) = index_text self env src oid d text (h @ [Open n, Read n])
                           in (r, Read n # es))
                     else (None, [Read n]))
          in (r, Open n # es @ [Close n]))"

text \<open>Lines 74 to 102, the body of \<^verbatim>\<open>try:\<close>.\<close>

definition try_body ::
  "IndexingService \<Rightarrow> collaborators \<Rightarrow> pystr \<Rightarrow> UUID \<Rightarrow> FileDataPlaintext \<Rightarrow>
   effect list \<Rightarrow> outcome" where
  "try_body self env src oid d h =
     (case download env (h @ [Print oid]) oid of
        Inl e \<Rightarrow> (Some e, [Print oid, Download oid])
      | Inr file \<Rightarrow>
          let (r, es) = read_file self env src oid d (name file)
                          (h @ [Print oid, Download oid, Enter file])
          in (r, [Print oid, Download oid, Enter file] @ es @ [Exit file]))"

text \<open>
  Lines 67 to 105, one turn of the loop: the identifier is parsed before \<^verbatim>\<open>try:\<close>, and
  \<^verbatim>\<open>except Exception\<close> logs what the body raised.
\<close>

definition process_data ::
  "IndexingService \<Rightarrow> collaborators \<Rightarrow> pystr \<Rightarrow> FileDataPlaintext \<Rightarrow> effect list \<Rightarrow> outcome" where
  "process_data self env src d h =
     (case uuid_UUID (object_id d) of
        Inl e \<Rightarrow> (Some e, [])
      | Inr oid \<Rightarrow>
          (case try_body self env src oid d h of
             (None, es) \<Rightarrow> (None, es)
           | (Some e, es) \<Rightarrow>
               if is_Exception e
               then (None, es @ [AException e
                       [(''message'', Str (u ''exception in processing a plaintext file''))]])
               else (Some e, es)))"

text \<open>The loop \<^verbatim>\<open>for data in event.data:\<close>; an exception that leaves one turn ends it.\<close>

fun process_all ::
  "IndexingService \<Rightarrow> collaborators \<Rightarrow> pystr \<Rightarrow> FileDataPlaintext list \<Rightarrow> effect list \<Rightarrow> outcome" where
  "process_all self env src [] h = (None, [])"
| "process_all self env src (d # ds) h =
     (case process_data self env src d h of
        (Some e, es) \<Rightarrow> (Some e, es)
      | (None, es) \<Rightarrow>
          (let (r, es') = process_all self env src ds (h @ es) in (r, es @ es')))"

definition process_message ::
  "IndexingService \<Rightarrow> collaborators \<Rightarrow> FileDataPlaintextMessage \<Rightarrow> effect list \<Rightarrow> outcome" where
  "process_message self env event h =
     process_all self env (source (metadata event)) (data event) h"

subsection \<open>Reading a list of effects\<close>

text \<open>The downloads that are held after a list of effects: entered and not left.\<close>

fun held :: "tmpfile list \<Rightarrow> effect list \<Rightarrow> tmpfile list" where
  "held fs [] = fs"
| "held fs (Enter f # es) = held (f # fs) es"
| "held fs (Exit f # es) = held (remove1 f fs) es"
| "held fs (_ # es) = held fs es"

fun is_upsert :: "effect \<Rightarrow> bool" where
  "is_upsert (AAddTexts _ _) = True"
| "is_upsert _ = False"

fun is_error_log :: "effect \<Rightarrow> bool" where
  "is_error_log (AException _ _) = True"
| "is_error_log _ = False"

fun is_split :: "effect \<Rightarrow> bool" where
  "is_split (SplitText _) = True"
| "is_split _ = False"

subsection \<open>Collaborators for the examples\<close>

text \<open>
  The storage holds the objects of \<open>files\<close>, each with the name and the content of its
  download, and answers \<^verbatim>\<open>not found\<close> for any other; the splitter cuts at blanks; the
  vector store answers every batch with \<open>stored\<close>.
\<close>

fun words :: "pystr \<Rightarrow> pystr \<Rightarrow> pystr list" where
  "words w [] = (if w = [] then [] else [w])"
| "words w (c # cs) =
     (if c = 32 then (if w = [] then words [] cs else w # words [] cs)
      else words (w @ [c]) cs)"

definition example_env :: "(UUID \<times> pystr \<times> pystr) list \<Rightarrow> exn option \<Rightarrow> collaborators" where
  "example_env files stored =
     \<lparr>download = (\<lambda>h oid. case map_of files oid of
                              None \<Rightarrow> Inl (OtherException ''not found'')
                            | Some (n, t) \<Rightarrow> Inr (TmpFile n)),
      open_r = (\<lambda>h n. None),
      read = (\<lambda>h n. case map_of (map snd files) n of
                       None \<Rightarrow> Inl (OtherException ''no such file'')
                     | Some t \<Rightarrow> Inr t),
      split_text = (\<lambda>h a text. Inr (words [] text)),
      aadd_texts = (\<lambda>h docs metas. stored)\<rparr>"

definition example_service :: IndexingService where
  "example_service =
     \<lparr>cfg = \<lparr>text_chunk_size = 500, embedding_model = [], elasticsearch_url = [],
              elasticsearch_user = [], elasticsearch_password = [], elastic_index_name = []\<rparr>,
      text_splitter = \<lparr>encoding_name = u ''cl100k_base'', chunk_size = 500, chunk_overlap = 33\<rparr>\<rparr>"

text \<open>Two stored objects, the second with white space only, and an event for an identifier.\<close>

definition example_files :: "(UUID \<times> pystr \<times> pystr) list" where
  "example_files =
     [(UUID 1, u ''/tmp/1'', u ''hello world''),
      (UUID 3, u ''/tmp/3'', [32, 10, 9, 160, 8195])]"

definition example_event :: "string \<Rightarrow> FileDataPlaintext" where
  "example_event oid =
     \<lparr>object_id = u oid,
      originating_object_id = u ''00000000-0000-0000-0000-0000000000aa'',
      originating_object_path = u ''C:/docs/report.docx'',
      originating_object_converted_pdf = []\<rparr>"

section \<open>The chunk overlap\<close>

lemma round_half_even_cases:
  "round_half_even p q = p div q \<or> (round_half_even p q = p div q + 1 \<and> q \<le> 2 * (p mod q))"
  by (auto simp: round_half_even_def Let_def)

lemma round_half_even_ge: "p div q \<le> round_half_even p q"
  using round_half_even_cases [of p q] by auto

text \<open>
  Rounding \<open>n * t / 15\<close> to an integer and dividing by \<open>t\<close> again gives the floor of
  \<open>n / 15\<close> as long as the rounding cannot reach the next multiple of \<open>t\<close>.
\<close>

lemma round_scaled_div:
  fixes n t :: nat
  assumes t: "8 \<le> t \<or> (t = 4 \<and> n mod 15 \<le> 13)"
  shows "round_half_even (n * t) 15 div t = n div 15"
proof -
  define k where "k = n div 15"
  define r where "r = n mod 15"
  have n: "n = 15 * k + r" and r: "r < 15"
    by (simp_all add: k_def r_def)
  have tpos: "0 < t" using t by auto
  define B where "B = r * t"
  have P: "n * t = 15 * (k * t) + B"
    by (simp add: n B_def algebra_simps)
  have Bbound: "B + 7 < 15 * t"
  proof (cases "8 \<le> t")
    case True
    have "r * t \<le> 14 * t" using r by (intro mult_le_mono1) simp
    with True show ?thesis unfolding B_def by linarith
  next
    case False
    with t have t4: "t = 4" and "r \<le> 13" by (auto simp: r_def)
    then have "r * t \<le> 13 * t" by (intro mult_le_mono1)
    with t4 show ?thesis unfolding B_def by linarith
  qed
  have Pdiv: "(n * t) div 15 = k * t + B div 15" and Pmod: "(n * t) mod 15 = B mod 15"
    by (simp_all add: P)
  define m where "m = round_half_even (n * t) 15"
  have lo: "k * t \<le> m"
    using round_half_even_ge [of "n * t" 15] by (simp add: m_def Pdiv)
  have hi: "m < k * t + t"
  proof -
    from round_half_even_cases [of "n * t" 15]
    consider "m = k * t + B div 15" | "m = k * t + B div 15 + 1" "15 \<le> 2 * (B mod 15)"
      by (auto simp: m_def Pdiv Pmod)
    then show ?thesis
    proof cases
      case 1
      with Bbound show ?thesis by simp
    next
      case 2
      have "B = 15 * (B div 15) + B mod 15" by simp
      with 2 Bbound show ?thesis by linarith
    qed
  qed
  from lo hi tpos have "m div t = k"
    by (intro div_nat_eqI) (simp_all add: mult.commute)
  then show ?thesis by (simp add: m_def k_def)
qed

lemma binexp_less:
  fixes p q k :: nat
  assumes "0 < p" "0 < q" "p < q * 2 ^ k"
  shows "binexp p q < int k"
proof -
  define d where "d = bitlen (int p) - bitlen (int q)"
  show ?thesis
  proof (cases "scaled_le q d p")
    case True
    have "d < int k"
    proof (rule ccontr)
      assume "\<not> d < int k"
      then have dk: "int k \<le> d" by simp
      then have "k \<le> nat d" by simp
      then have "(2::nat) ^ k \<le> 2 ^ nat d" by (intro power_increasing) simp_all
      then have "q * 2 ^ k \<le> q * 2 ^ nat d" by (rule mult_le_mono2)
      moreover from True dk have "q * 2 ^ nat d \<le> p" by (simp add: scaled_le_def)
      ultimately show False using assms(3) by linarith
    qed
    with True show ?thesis by (simp add: binexp_def d_def Let_def)
  next
    case False
    have "d \<le> int k"
    proof (rule ccontr)
      assume "\<not> d \<le> int k"
      then have dk: "bitlen (int q) + int k \<le> bitlen (int p) - 1" by (simp add: d_def)
      have bq: "int q < 2 ^ nat (bitlen (int q))" using bitlen_bounds [of "int q"] assms by simp
      have bp: "2 ^ nat (bitlen (int p) - 1) \<le> int p" using bitlen_bounds [of "int p"] assms by simp
      have "int q * 2 ^ k < 2 ^ nat (bitlen (int q)) * 2 ^ k" using bq by simp
      also have "\<dots> = 2 ^ (nat (bitlen (int q)) + k)" by (simp add: power_add)
      also have "\<dots> \<le> 2 ^ nat (bitlen (int p) - 1)"
        using dk bitlen_nonneg [of "int q"] by (intro power_increasing) auto
      also have "\<dots> \<le> int p" by (rule bp)
      finally have "int (q * 2 ^ k) < int p" by simp
      then have "q * 2 ^ k < p" by (simp only: of_nat_less_iff)
      with assms show False by simp
    qed
    with False show ?thesis by (simp add: binexp_def d_def Let_def)
  qed
qed

lemma binexp_lower:
  fixes p q :: nat
  assumes "0 < p" "0 < q" "0 \<le> binexp p q"
  shows "q * 2 ^ nat (binexp p q) \<le> p"
proof -
  define d where "d = bitlen (int p) - bitlen (int q)"
  show ?thesis
  proof (cases "scaled_le q d p")
    case True
    then have e: "binexp p q = d" by (simp add: binexp_def d_def Let_def)
    with assms True show ?thesis by (simp add: scaled_le_def)
  next
    case False
    then have e: "binexp p q = d - 1" by (simp add: binexp_def d_def Let_def)
    with assms have d1: "1 \<le> d" by simp
    have bq: "int q < 2 ^ nat (bitlen (int q))" using bitlen_bounds [of "int q"] assms by simp
    have bp: "2 ^ nat (bitlen (int p) - 1) \<le> int p" using bitlen_bounds [of "int p"] assms by simp
    have "int q * 2 ^ nat (d - 1) \<le> 2 ^ nat (bitlen (int q)) * 2 ^ nat (d - 1)"
      using bq by simp
    also have "\<dots> = 2 ^ (nat (bitlen (int q)) + nat (d - 1))" by (simp add: power_add)
    also have "nat (bitlen (int q)) + nat (d - 1) = nat (bitlen (int p) - 1)"
      using d1 bitlen_nonneg [of "int q"] by (simp add: d_def)
    also have "2 ^ nat (bitlen (int p) - 1) \<le> int p" by (rule bp)
    finally have "int (q * 2 ^ nat (d - 1)) \<le> int p" by simp
    then have "q * 2 ^ nat (d - 1) \<le> p" by (simp only: of_nat_le_iff)
    with e show ?thesis by simp
  qed
qed

lemma py_truediv_15_pos:
  assumes "0 < n" "max (binexp (nat n) 15) (- 1022) = e" "e \<le> 50"
  shows "py_truediv n 15 = Inr (Float (int (scaled_round (nat n) 15 (52 - e))) (e - 52))"
proof -
  have a: "nat \<bar>n\<bar> = nat n" "nat \<bar>15::int\<bar> = 15" "sgn n = 1" "sgn (15::int) = 1"
    using assms(1) by simp_all
  have b: "\<not> (1024 \<le> e \<or> (e = 1023 \<and> scaled_round (nat n) 15 (52 - e) = 2 ^ 53))"
    using assms(3) by simp
  have c: "n \<noteq> 0" "(15::int) \<noteq> 0" using assms(1) by simp_all
  show ?thesis
    unfolding py_truediv_def Let_def a assms(2) if_not_P [OF b] if_not_P [OF c(1)] if_not_P [OF c(2)]
    by simp
qed

lemma py_int_of_float_scaled:
  assumes "s < 0"
  shows "py_int_of_float (Float (int m) s) = int (m div 2 ^ nat (- s))"
proof (cases "m = 0")
  case True
  with assms show ?thesis by (simp add: py_int_of_float_def)
next
  case False
  with assms show ?thesis by (simp add: py_int_of_float_def zdiv_int)
qed

lemma chunk_overlap_of_floor:
  assumes "0 < n" "n < 16888498602639374"
  shows "chunk_overlap_of n = Inr (n div 15)"
proof -
  define p where "p = nat n"
  define e where "e = max (binexp p 15) (- 1022)"
  define s where "s = 52 - e"
  have p: "0 < p" "p < 16888498602639374" "int p = n"
    using assms by (simp_all add: p_def)
  have "p < 15 * 2 ^ 51" using p(2) by simp
  with p(1) have "binexp p 15 < int 51" by (intro binexp_less) simp_all
  then have b50: "binexp p 15 \<le> 50" by simp
  then have e: "- 1022 \<le> e" "e \<le> 50" by (simp_all add: e_def)
  then have s: "2 \<le> s" by (simp add: s_def)
  have t: "8 \<le> (2::nat) ^ nat s \<or> ((2::nat) ^ nat s = 4 \<and> p mod 15 \<le> 13)"
  proof (cases "s = 2")
    case True
    then have "e = 50" by (simp add: s_def)
    then have e0: "binexp p 15 = 50" by (simp add: e_def max_def split: if_splits)
    with binexp_lower [of p 15] p(1) have "15 * 1125899906842624 \<le> p" by simp
    then obtain j where j: "p = 15 * 1125899906842624 + j"
      using le_Suc_ex by blast
    with p(2) have "j < 14" by simp
    have "(15 * 1125899906842624 + j) mod 15 = j mod 15" by (rule mod_mult_self4)
    with \<open>j < 14\<close> have "p mod 15 = j" unfolding j by simp
    with \<open>j < 14\<close> have "p mod 15 \<le> 13" by simp
    with True show ?thesis by simp
  next
    case False
    with s have "3 \<le> nat s" by simp
    then have "(2::nat) ^ 3 \<le> 2 ^ nat s" by (intro power_increasing) simp_all
    then show ?thesis by simp
  qed
  have es: "e - 52 = - s" "52 - e = s" by (simp_all add: s_def)
  have "py_truediv n 15 = Inr (Float (int (scaled_round p 15 s)) (- s))"
    using py_truediv_15_pos [of n e] assms(1) e(2) unfolding es
    by (simp add: p_def e_def)
  moreover have "scaled_round p 15 s = round_half_even (p * 2 ^ nat s) 15"
    using s by (simp add: scaled_round_def)
  ultimately have "chunk_overlap_of n =
      Inr (py_int_of_float (Float (int (round_half_even (p * 2 ^ nat s) 15)) (- s)))"
    by (simp add: chunk_overlap_of_def)
  also have "py_int_of_float (Float (int (round_half_even (p * 2 ^ nat s) 15)) (- s))
             = int (round_half_even (p * 2 ^ nat s) 15 div 2 ^ nat (- (- s)))"
    using s by (intro py_int_of_float_scaled) simp
  also have "nat (- (- s)) = nat s" by simp
  also have "round_half_even (p * 2 ^ nat s) 15 div 2 ^ nat s = p div 15"
    using t by (rule round_scaled_div)
  also have "int (p div 15) = n div 15"
    using p(3) by (simp add: zdiv_int)
  finally show ?thesis .
qed

lemma round_half_even_le: "round_half_even p q \<le> p div q + 1"
  using round_half_even_cases [of p q] by auto

text \<open>
  Whatever the size, an overlap that is computed is below the chunk size: the rounded
  quotient exceeds \<open>n / 15\<close> by less than one unit of its last binary place.
\<close>

lemma chunk_overlap_of_bounds:
  assumes "0 < n" and "chunk_overlap_of n = Inr k"
  shows "0 \<le> k \<and> k < n"
proof -
  define p where "p = nat n"
  define e where "e = max (binexp p 15) (- 1022)"
  define m where "m = scaled_round p 15 (52 - e)"
  have p: "0 < p" "int p = n" using assms(1) by (simp_all add: p_def)
  have a: "nat \<bar>n\<bar> = p" "nat \<bar>15::int\<bar> = 15" "sgn n = 1" "sgn (15::int) = 1"
    using assms(1) by (simp_all add: p_def)
  have c: "n \<noteq> 0" "(15::int) \<noteq> 0" using assms(1) by simp_all
  have div: "py_truediv n 15 =
      (if 1024 \<le> e \<or> (e = 1023 \<and> m = 2 ^ 53)
       then Inl (OverflowError ''integer division result too large for a float'')
       else Inr (Float (int m) (e - 52)))"
    unfolding py_truediv_def Let_def a if_not_P [OF c(1)] if_not_P [OF c(2)] e_def [symmetric]
      m_def [symmetric]
    by simp
  from assms(2) have k: "k = py_int_of_float (Float (int m) (e - 52))"
    unfolding chunk_overlap_of_def div by (simp split: if_splits)
  show ?thesis
  proof (cases "e - 52 < 0")
    case True
    define S :: nat where "S = 2 ^ nat (52 - e)"
    from True have "1 \<le> nat (52 - e)" by simp
    then have "(2::nat) ^ 1 \<le> 2 ^ nat (52 - e)" by (intro power_increasing) simp_all
    then have S: "2 \<le> S" by (simp add: S_def)
    from True have m: "m = round_half_even (p * S) 15"
      by (simp add: m_def scaled_round_def S_def)
    have "m \<le> (p * S) div 15 + 1" unfolding m by (rule round_half_even_le)
    moreover have "15 * ((p * S) div 15) \<le> p * S" by simp
    moreover have "2 \<le> p * S"
    proof -
      have "1 * 2 \<le> p * S" using p(1) S by (intro mult_le_mono) simp_all
      then show ?thesis by simp
    qed
    ultimately have "m < p * S" by linarith
    then have "m div S < p" by (rule less_mult_imp_div_less)
    then have "int (m div S) < int p" by (simp only: of_nat_less_iff)
    moreover from True have "k = int (m div 2 ^ nat (- (e - 52)))"
      unfolding k by (rule py_int_of_float_scaled)
    then have "k = int (m div S)" by (simp add: S_def)
    ultimately show ?thesis unfolding p(2) by simp
  next
    case False
    define T :: nat where "T = 2 ^ nat (e - 52)"
    from False have e52: "52 \<le> e" by simp
    then have e0: "binexp p 15 = e" by (simp add: e_def max_def split: if_splits)
    with binexp_lower [of p 15] p(1) e52 have "15 * 2 ^ nat e \<le> p" by simp
    moreover have "nat e = 52 + nat (e - 52)" using e52 by simp
    ultimately have "15 * (2 ^ 52 * T) \<le> p" by (simp add: T_def power_add)
    moreover have "1 * T \<le> 2 ^ 52 * T" by (intro mult_le_mono1) simp
    ultimately have T: "15 * T \<le> p" by simp
    have m: "m = round_half_even p (15 * T)"
    proof (cases "e = 52")
      case True
      then show ?thesis by (simp add: m_def scaled_round_def T_def)
    next
      case False
      with e52 have "\<not> 0 \<le> 52 - e" "- (52 - e) = e - 52" by simp_all
      then show ?thesis by (simp add: m_def scaled_round_def T_def)
    qed
    define x where "x = p div (15 * T)"
    have "m \<le> x + 1" unfolding m x_def by (rule round_half_even_le)
    then have "m * T \<le> (x + 1) * T" by (rule mult_le_mono1)
    moreover have "x * (15 * T) \<le> p" unfolding x_def by simp
    then have "15 * (x * T) \<le> p" by (simp add: mult.assoc mult.left_commute)
    ultimately have "15 * (m * T) \<le> p + 15 * T" by (simp add: algebra_simps)
    with T p(1) have "m * T < p" by linarith
    then have "int (m * T) < int p" by (simp only: of_nat_less_iff)
    moreover from False have "k = int m * 2 ^ nat (e - 52)"
      unfolding k by (simp add: py_int_of_float_def)
    then have "k = int (m * T)" by (simp add: T_def)
    ultimately show ?thesis unfolding p(2) by simp
  qed
qed

lemma bitlen_15: "bitlen 15 = 4"
  by code_simp

lemma bitlen_500: "bitlen 500 = 9"
  by code_simp

lemma bitlen_threshold: "bitlen 16888498602639374 = 54"
  by code_simp

lemmas float_eval = chunk_overlap_of_def py_truediv_def binexp_def scaled_le_def scaled_round_def
  round_half_even_def py_int_of_float_def Let_def

text \<open>
  C5, as stated, fails: at \<^verbatim>\<open>text_chunk_size = 16888498602639374\<close>, which is
  \<open>15 * 2 ^ 50 + 14\<close>, the quotient \<open>1125899906842624.93\<close> lies between two doubles that
  are a quarter apart and is rounded up to \<open>1125899906842625.0\<close>, so that the overlap
  is one more than the floor of the quotient.
\<close>

theorem C5_overlap_not_floor_at_threshold:
  "chunk_overlap_of 16888498602639374 \<noteq> Inr (16888498602639374 div 15)"
  by (simp add: float_eval bitlen_15 bitlen_threshold)

text \<open>
  C5, amended: for a positive \<^verbatim>\<open>text_chunk_size\<close> below \<open>16888498602639374\<close> the overlap
  is computed and is \<open>floor (chunk_size / 15)\<close>; and for every positive
  \<^verbatim>\<open>text_chunk_size\<close> for which the constructor computes an overlap at all (the float
  division can overflow), the splitter is given that chunk size and an overlap with
  \<open>0 \<le> overlap < chunk_size\<close>.
\<close>

theorem C5_overlap_floor_and_bounds:
  assumes "0 < text_chunk_size c"
  shows "(text_chunk_size c < 16888498602639374 \<longrightarrow>
            (\<exists>svc. init c = Inr svc
               \<and> chunk_overlap (text_splitter svc) = text_chunk_size c div 15))
       \<and> (\<forall>svc. init c = Inr svc \<longrightarrow>
            chunk_size (text_splitter svc) = text_chunk_size c
            \<and> 0 \<le> chunk_overlap (text_splitter svc)
            \<and> chunk_overlap (text_splitter svc) < chunk_size (text_splitter svc))"
proof (intro conjI impI allI)
  assume "text_chunk_size c < 16888498602639374"
  with assms have "chunk_overlap_of (text_chunk_size c) = Inr (text_chunk_size c div 15)"
    by (rule chunk_overlap_of_floor)
  then show "\<exists>svc. init c = Inr svc
               \<and> chunk_overlap (text_splitter svc) = text_chunk_size c div 15"
    by (simp add: init_def Let_def)
next
  fix svc
  assume svc: "init c = Inr svc"
  then obtain k where k: "chunk_overlap_of (text_chunk_size c) = Inr k"
    and sp: "text_splitter svc = \<lparr>encoding_name = u ''cl100k_base'',
                                   chunk_size = text_chunk_size c, chunk_overlap = k\<rparr>"
    by (auto simp: init_def Let_def split: sum.splits)
  from chunk_overlap_of_bounds [OF assms k] have "0 \<le> k \<and> k < text_chunk_size c" .
  then show "chunk_size (text_splitter svc) = text_chunk_size c"
    and "0 \<le> chunk_overlap (text_splitter svc)"
    and "chunk_overlap (text_splitter svc) < chunk_size (text_splitter svc)"
    by (simp_all add: sp)
qed

theorem C5_overlap_witness:
  "init \<lparr>text_chunk_size = 500, embedding_model = [], elasticsearch_url = [],
         elasticsearch_user = [], elasticsearch_password = [], elastic_index_name = []\<rparr>
   = Inr example_service
   \<and> chunk_overlap (text_splitter example_service) = 500 div 15
   \<and> 0 \<le> chunk_overlap (text_splitter example_service)
   \<and> chunk_overlap (text_splitter example_service) < chunk_size (text_splitter example_service)"
  using C5_overlap_floor_and_bounds
    [of "\<lparr>text_chunk_size = 500, embedding_model = [], elasticsearch_url = [],
           elasticsearch_user = [], elasticsearch_password = [], elastic_index_name = []\<rparr>"]
  by (auto simp: init_def Let_def example_service_def split: sum.splits)

section \<open>Processing one message\<close>

subsection \<open>Blank text\<close>

lemma all_dropWhile_iff:
  "(\<forall>x\<in>set (dropWhile P s). P x) \<longleftrightarrow> (\<forall>c\<in>set s. P c)"
proof
  assume a: "\<forall>x\<in>set (dropWhile P s). P x"
  show "\<forall>c\<in>set s. P c"
  proof (cases "dropWhile P s")
    case Nil
    then show ?thesis by (simp only: dropWhile_eq_Nil_conv)
  next
    case (Cons x xs)
    then have "\<not> P x" using hd_dropWhile [of P s] by auto
    moreover from a Cons have "P x" by simp
    ultimately show ?thesis by simp
  qed
next
  assume "\<forall>c\<in>set s. P c"
  then show "\<forall>x\<in>set (dropWhile P s). P x"
    by (blast dest: set_dropWhileD)
qed

text \<open>\<^verbatim>\<open>text.strip()\<close> is false exactly for a text of white space only, the empty one included.\<close>

lemma strip_Nil_iff: "strip text = [] \<longleftrightarrow> (\<forall>c\<in>set text. py_isspace c)"
  by (simp add: strip_def all_dropWhile_iff)

subsection \<open>The paths through one turn of the loop\<close>

lemma process_data_malformed:
  assumes "uuid_UUID (object_id d) = Inl e"
  shows "process_data self env src d h = (Some e, [])"
  using assms by (simp add: process_data_def)

lemma process_data_download_fails:
  assumes "uuid_UUID (object_id d) = Inr oid"
    and "download env (h @ [Print oid]) oid = Inl e"
    and "is_Exception e"
  shows "process_data self env src d h =
           (None, [Print oid, Download oid,
                   AException e [(''message'', Str (u ''exception in processing a plaintext file''))]])"
  using assms by (simp add: process_data_def try_body_def)

lemma process_data_indexed:
  assumes "uuid_UUID (object_id d) = Inr oid"
    and "download env (h @ [Print oid]) oid = Inr file"
    and "open_r env (h @ [Print oid, Download oid, Enter file]) (name file) = None"
    and "read env (h @ [Print oid, Download oid, Enter file, Open (name file)]) (name file) = Inr text"
    and "\<not> (\<forall>c\<in>set text. py_isspace c)"
    and "split_text env (h @ [Print oid, Download oid, Enter file, Open (name file), Read (name file)])
           (text_splitter self) text = Inr docs"
  shows "\<exists>r post. process_data self env src d h =
           (r, [Print oid, Download oid, Enter file, Open (name file), Read (name file),
                SplitText text, AInfo (Loading (length docs)) [(''object_id'', Uuid oid)],
                AAddTexts docs (build_metadata src oid d (length docs))] @ post)
           \<and> (\<forall>x\<in>set post. \<not> is_upsert x)"
proof -
  have "strip text \<noteq> []" using assms(5) by (simp add: strip_Nil_iff)
  with assms(1-4,6) show ?thesis
    by (cases "aadd_texts env (h @ [Print oid, Download oid, Enter file, Open (name file),
                  Read (name file), SplitText text,
                  AInfo (Loading (length docs)) [(''object_id'', Uuid oid)]]) docs
                  (build_metadata src oid d (length docs))")
       (auto simp add: process_data_def try_body_def read_file_def index_text_def Let_def)
qed

text \<open>
  Inside \<^verbatim>\<open>try:\<close> the handler does its work: once the identifier is parsed, only an
  exception that is not an \<^verbatim>\<open>Exception\<close> leaves the turn.
\<close>

lemma process_data_catches:
  assumes "uuid_UUID (object_id d) = Inr oid"
    and "fst (process_data self env src d h) = Some e"
  shows "\<not> is_Exception e"
  using assms
  by (auto simp add: process_data_def split: sum.splits option.splits prod.splits if_splits)

text \<open>Every error log of a turn has the keyword \<^verbatim>\<open>message\<close> and no other.\<close>

lemma error_log_keywords:
  assumes "AException e kw \<in> set (snd (process_data self env src d h))"
  shows "map fst kw = [''message'']"
  using assms
  by (auto simp add: process_data_def try_body_def read_file_def index_text_def Let_def
           split: sum.splits option.splits prod.splits if_splits)

subsection \<open>The examples, evaluated\<close>

lemmas str_eval = u_def strip_chars_def to_ascii_def c_isspace_def digit_value_def
  skip_sign_def skip_prefix_def int16_def uuid_UUID_def invalid_literal_def Let_def

lemma example_ids:
  "uuid_UUID (object_id (example_event ''00000000-0000-0000-0000-000000000001'')) = Inr (UUID 1)"
  "uuid_UUID (object_id (example_event ''{00000000000000000000000000000001}'')) = Inr (UUID 1)"
  "uuid_UUID (object_id (example_event ''00000000-0000-0000-0000-000000000002'')) = Inr (UUID 2)"
  "uuid_UUID (object_id (example_event ''00000000-0000-0000-0000-000000000003'')) = Inr (UUID 3)"
  "uuid_UUID (object_id (example_event ''not-a-uuid''))
     = Inl (ValueError ''badly formed hexadecimal UUID string'')"
  by (simp_all add: example_event_def str_eval)

lemmas run_eval = process_message_def process_data_def try_body_def read_file_def index_text_def
  build_metadata_def example_env_def example_files_def example_service_def
  strip_def py_isspace_def u_def numeral_2_eq_2

lemma example_download:
  "download (example_env example_files stored) h (UUID 1) = Inr (TmpFile (u ''/tmp/1''))"
  "download (example_env example_files stored) h (UUID 3) = Inr (TmpFile (u ''/tmp/3''))"
  "download (example_env example_files stored) h (UUID 2) = Inl (OtherException ''not found'')"
  by (simp_all add: example_env_def example_files_def)

lemma example_read:
  "open_r (example_env example_files stored) h n = None"
  "read (example_env example_files stored) h (u ''/tmp/1'') = Inr (u ''hello world'')"
  "read (example_env example_files stored) h (u ''/tmp/3'') = Inr [32, 10, 9, 160, 8195]"
  by (simp_all add: example_env_def example_files_def u_def)

lemma example_split:
  "split_text (example_env example_files stored) h a (u ''hello world'') = Inr [u ''hello'', u ''world'']"
  by (simp add: example_env_def u_def)

lemma example_text:
  "\<not> (\<forall>c\<in>set (u ''hello world''). py_isspace c)"
  "\<forall>c\<in>set [32, 10, 9, 160, 8195]. py_isspace c"
  by (simp_all add: u_def py_isspace_def)

section \<open>The claims about \<^verbatim>\<open>process_message\<close>\<close>

text \<open>
  C1 says that no exception of the steps of one event, the parsing of \<^verbatim>\<open>object_id\<close>
  included, leaves \<^verbatim>\<open>process_message\<close> or keeps a sibling from being indexed. The code
  parses the identifier on line 67, before \<^verbatim>\<open>try:\<close> on line 73. For a message whose
  first event has the identifier \<^verbatim>\<open>not-a-uuid\<close> and whose second event is a stored
  document, the \<^verbatim>\<open>ValueError\<close> leaves \<^verbatim>\<open>process_message\<close> and nothing at all is done for
  the second event, which is indexed when it is sent alone.
\<close>

theorem C1_malformed_object_id_escapes:
  "process_message example_service (example_env example_files None)
      \<lparr>metadata = \<lparr>source = u ''web''\<rparr>,
       data = [example_event ''not-a-uuid'',
               example_event ''00000000-0000-0000-0000-000000000001'']\<rparr> []
    = (Some (ValueError ''badly formed hexadecimal UUID string''), [])
   \<and> process_message example_service (example_env example_files None)
      \<lparr>metadata = \<lparr>source = u ''web''\<rparr>,
       data = [example_event ''00000000-0000-0000-0000-000000000001'']\<rparr> []
    = (None,
       [Print (UUID 1), Download (UUID 1), Enter (TmpFile (u ''/tmp/1'')),
        Open (u ''/tmp/1''), Read (u ''/tmp/1''), SplitText (u ''hello world''),
        AInfo (Loading 2) [(''object_id'', Uuid (UUID 1))],
        AAddTexts [u ''hello'', u ''world'']
          (build_metadata (u ''web'') (UUID 1)
             (example_event ''00000000-0000-0000-0000-000000000001'') 2),
        AInfo (Loaded 2) [(''object_id'', Uuid (UUID 1))],
        Close (u ''/tmp/1''), Exit (TmpFile (u ''/tmp/1''))])"
  by (simp add: run_eval example_ids)

text \<open>
  C2: when the text read for an event is empty or white space only, the turn ends
  without an exception and its effects are the download, the reading and the two
  releases: the splitter is not called, so there are no chunks and no metadata, nothing
  is sent to the vector store, and no error is logged.
\<close>

theorem C2_blank_text_is_skipped:
  assumes "uuid_UUID (object_id d) = Inr oid"
    and "download env (h @ [Print oid]) oid = Inr file"
    and "open_r env (h @ [Print oid, Download oid, Enter file]) (name file) = None"
    and "read env (h @ [Print oid, Download oid, Enter file, Open (name file)]) (name file) = Inr text"
    and "\<forall>c\<in>set text. py_isspace c"
  shows "process_data self env src d h =
           (None, [Print oid, Download oid, Enter file, Open (name file), Read (name file),
                   Close (name file), Exit file])"
proof -
  have "strip text = []" using assms(5) by (simp add: strip_Nil_iff)
  with assms(1-4) show ?thesis
    by (simp add: process_data_def try_body_def read_file_def)
qed

theorem C2_blank_text_witness:
  "process_data example_service (example_env example_files None) (u ''web'')
      (example_event ''00000000-0000-0000-0000-000000000003'') []
    = (None, [Print (UUID 3), Download (UUID 3), Enter (TmpFile (u ''/tmp/3'')),
              Open (u ''/tmp/3''), Read (u ''/tmp/3''), Close (u ''/tmp/3''),
              Exit (TmpFile (u ''/tmp/3''))])"
  using C2_blank_text_is_skipped
    [of "example_event ''00000000-0000-0000-0000-000000000003''" "UUID 3"
        "example_env example_files None" "[]" "TmpFile (u ''/tmp/3'')" "[32, 10, 9, 160, 8195]"
        example_service "u ''web''"]
  by (simp add: example_ids example_download example_read example_text)

text \<open>
  C3: for an event whose text is not blank and is split into \<open>docs\<close>, whatever is sent
  to the vector store comes with as many metadata records as there are chunks, and
  every record is the same dict: the source of the message, the parsed identifier and
  the three provenance fields of the event.
\<close>

theorem C3_metadata_matches_chunks:
  assumes "uuid_UUID (object_id d) = Inr oid"
    and "download env (h @ [Print oid]) oid = Inr file"
    and "open_r env (h @ [Print oid, Download oid, Enter file]) (name file) = None"
    and "read env (h @ [Print oid, Download oid, Enter file, Open (name file)]) (name file) = Inr text"
    and "\<not> (\<forall>c\<in>set text. py_isspace c)"
    and "split_text env (h @ [Print oid, Download oid, Enter file, Open (name file), Read (name file)])
           (text_splitter self) text = Inr docs"
    and "AAddTexts ds metas \<in> set (snd (process_data self env src d h))"
  shows "ds = docs \<and> length metas = length docs
       \<and> (\<forall>m\<in>set metas.
             m = [(''source'', Str src),
                  (''object_id'', Uuid oid),
                  (''originating_object_id'', Str (originating_object_id d)),
                  (''originating_object_path'', Str (originating_object_path d)),
                  (''originating_object_pdf'', Str (originating_object_converted_pdf d))])"
proof -
  from process_data_indexed [OF assms(1-6)] obtain r post where
    run: "process_data self env src d h =
           (r, [Print oid, Download oid, Enter file, Open (name file), Read (name file),
                SplitText text, AInfo (Loading (length docs)) [(''object_id'', Uuid oid)],
                AAddTexts docs (build_metadata src oid d (length docs))] @ post)"
    and post: "\<forall>x\<in>set post. \<not> is_upsert x"
    by blast
  from assms(7) post have "ds = docs \<and> metas = build_metadata src oid d (length docs)"
    unfolding run by auto
  then show ?thesis by (simp add: build_metadata_def)
qed

theorem C3_metadata_witness:
  "AAddTexts [u ''hello'', u ''world'']
     (replicate 2
        [(''source'', Str (u ''web'')),
         (''object_id'', Uuid (UUID 1)),
         (''originating_object_id'', Str (u ''00000000-0000-0000-0000-0000000000aa'')),
         (''originating_object_path'', Str (u ''C:/docs/report.docx'')),
         (''originating_object_pdf'', Str [])])
   \<in> set (snd (process_data example_service (example_env example_files None) (u ''web'')
                 (example_event ''00000000-0000-0000-0000-000000000001'') []))"
proof -
  let ?d = "example_event ''00000000-0000-0000-0000-000000000001''"
  let ?env = "example_env example_files None"
  let ?f = "TmpFile (u ''/tmp/1'')"
  have h1: "uuid_UUID (object_id ?d) = Inr (UUID 1)"
    by (simp add: example_ids)
  have h2: "download ?env ([] @ [Print (UUID 1)]) (UUID 1) = Inr ?f"
    by (simp add: example_download)
  have h3: "open_r ?env ([] @ [Print (UUID 1), Download (UUID 1), Enter ?f]) (name ?f) = None"
    by (simp add: example_read)
  have h4: "read ?env ([] @ [Print (UUID 1), Download (UUID 1), Enter ?f, Open (name ?f)]) (name ?f)
              = Inr (u ''hello world'')"
    by (simp add: example_read)
  have h5: "\<not> (\<forall>c\<in>set (u ''hello world''). py_isspace c)"
    by (simp add: example_text)
  have h6: "split_text ?env
              ([] @ [Print (UUID 1), Download (UUID 1), Enter ?f, Open (name ?f), Read (name ?f)])
              (text_splitter example_service) (u ''hello world'') = Inr [u ''hello'', u ''world'']"
    by (simp add: example_split)
  from process_data_indexed [OF h1 h2 h3 h4 h5 h6, of "u ''web''"]
  have mem: "AAddTexts [u ''hello'', u ''world''] (build_metadata (u ''web'') (UUID 1) ?d 2)
       \<in> set (snd (process_data example_service ?env (u ''web'') ?d []))"
    by (auto simp: numeral_2_eq_2)
  from C3_metadata_matches_chunks [OF h1 h2 h3 h4 h5 h6 mem] mem show ?thesis
    by (simp add: build_metadata_def example_event_def numeral_2_eq_2)
qed

text \<open>
  C6, as stated, fails: it asks for one \<^verbatim>\<open>aadd_texts\<close> call for every event whose
  retrieved text is not empty. The stored object \<open>UUID 3\<close> has a text of five code points,
  all of them white space; \<^verbatim>\<open>text.strip()\<close> on line 80 is then false, and the turn makes
  no call at all.
\<close>

theorem C6_nonempty_blank_text_no_upsert:
  "read (example_env example_files None)
        [Print (UUID 3), Download (UUID 3), Enter (TmpFile (u ''/tmp/3'')), Open (u ''/tmp/3'')]
        (u ''/tmp/3'') = Inr [32, 10, 9, 160, 8195]
   \<and> [32, 10, 9, 160, 8195] \<noteq> ([] :: pystr)
   \<and> filter is_upsert
         (snd (process_data example_service (example_env example_files None) (u ''web'')
                 (example_event ''00000000-0000-0000-0000-000000000003'') [])) = []"
  by (simp add: run_eval example_ids)

text \<open>
  C6, amended: for an event whose retrieved text is not white space only and for which
  \<^verbatim>\<open>split_text\<close> returns \<open>docs\<close>, the turn calls \<^verbatim>\<open>aadd_texts\<close> exactly once, with all of
  \<open>docs\<close> and with one metadata record for each of them, whether the call then succeeds
  or raises.
\<close>

theorem C6_one_upsert_with_the_whole_batch:
  assumes "uuid_UUID (object_id d) = Inr oid"
    and "download env (h @ [Print oid]) oid = Inr file"
    and "open_r env (h @ [Print oid, Download oid, Enter file]) (name file) = None"
    and "read env (h @ [Print oid, Download oid, Enter file, Open (name file)]) (name file) = Inr text"
    and "\<not> (\<forall>c\<in>set text. py_isspace c)"
    and "split_text env (h @ [Print oid, Download oid, Enter file, Open (name file), Read (name file)])
           (text_splitter self) text = Inr docs"
  shows "filter is_upsert (snd (process_data self env src d h))
           = [AAddTexts docs (build_metadata src oid d (length docs))]
       \<and> length (build_metadata src oid d (length docs)) = length docs"
proof -
  from process_data_indexed [OF assms] obtain r post where
    run: "process_data self env src d h =
           (r, [Print oid, Download oid, Enter file, Open (name file), Read (name file),
                SplitText text, AInfo (Loading (length docs)) [(''object_id'', Uuid oid)],
                AAddTexts docs (build_metadata src oid d (length docs))] @ post)"
    and post: "\<forall>x\<in>set post. \<not> is_upsert x"
    by blast
  from post have "filter is_upsert post = []"
    by (simp add: filter_empty_conv)
  then show ?thesis
    by (simp add: run build_metadata_def)
qed

theorem C6_one_upsert_witness:
  "filter is_upsert
     (snd (process_data example_service (example_env example_files None) (u ''web'')
             (example_event ''00000000-0000-0000-0000-000000000001'') []))
   = [AAddTexts [u ''hello'', u ''world'']
        (build_metadata (u ''web'') (UUID 1)
           (example_event ''00000000-0000-0000-0000-000000000001'') 2)]"
proof -
  let ?d = "example_event ''00000000-0000-0000-0000-000000000001''"
  let ?env = "example_env example_files None"
  let ?f = "TmpFile (u ''/tmp/1'')"
  have h1: "uuid_UUID (object_id ?d) = Inr (UUID 1)"
    by (simp add: example_ids)
  have h2: "download ?env ([] @ [Print (UUID 1)]) (UUID 1) = Inr ?f"
    by (simp add: example_download)
  have h3: "open_r ?env ([] @ [Print (UUID 1), Download (UUID 1), Enter ?f]) (name ?f) = None"
    by (simp add: example_read)
  have h4: "read ?env ([] @ [Print (UUID 1), Download (UUID 1), Enter ?f, Open (name ?f)]) (name ?f)
              = Inr (u ''hello world'')"
    by (simp add: example_read)
  have h5: "\<not> (\<forall>c\<in>set (u ''hello world''). py_isspace c)"
    by (simp add: example_text)
  have h6: "split_text ?env
              ([] @ [Print (UUID 1), Download (UUID 1), Enter ?f, Open (name ?f), Read (name ?f)])
              (text_splitter example_service) (u ''hello world'') = Inr [u ''hello'', u ''world'']"
    by (simp add: example_split)
  from C6_one_upsert_with_the_whole_batch [OF h1 h2 h3 h4 h5 h6, of "u ''web''"]
  show ?thesis by (simp add: numeral_2_eq_2)
qed

text \<open>
  C7: when the download of an event succeeds, the turn enters the downloaded file and,
  whatever the collaborators answer afterwards and however the turn ends, no download
  is held at its end: the outer \<^verbatim>\<open>with\<close> has left the file.
\<close>

theorem C7_download_released_on_every_path:
  assumes "uuid_UUID (object_id d) = Inr oid"
    and "download env (h @ [Print oid]) oid = Inr file"
  shows "Enter file \<in> set (snd (process_data self env src d h))
       \<and> held [] (snd (process_data self env src d h)) = []"
  using assms
  by (auto simp add: process_data_def try_body_def read_file_def index_text_def Let_def
           split: sum.splits option.splits prod.splits if_splits)

text \<open>The witness is a turn that fails: the vector store refuses the batch.\<close>

theorem C7_download_released_witness:
  "process_data example_service
      (example_env example_files (Some (OtherException ''connection refused''))) (u ''web'')
      (example_event ''00000000-0000-0000-0000-000000000001'') []
    = (None,
       [Print (UUID 1), Download (UUID 1), Enter (TmpFile (u ''/tmp/1'')),
        Open (u ''/tmp/1''), Read (u ''/tmp/1''), SplitText (u ''hello world''),
        AInfo (Loading 2) [(''object_id'', Uuid (UUID 1))],
        AAddTexts [u ''hello'', u ''world'']
          (build_metadata (u ''web'') (UUID 1)
             (example_event ''00000000-0000-0000-0000-000000000001'') 2),
        Close (u ''/tmp/1''), Exit (TmpFile (u ''/tmp/1'')),
        AException (OtherException ''connection refused'')
          [(''message'', Str (u ''exception in processing a plaintext file''))]])
   \<and> held [] (snd (process_data example_service
          (example_env example_files (Some (OtherException ''connection refused''))) (u ''web'')
          (example_event ''00000000-0000-0000-0000-000000000001'') [])) = []"
proof -
  let ?d = "example_event ''00000000-0000-0000-0000-000000000001''"
  let ?env = "example_env example_files (Some (OtherException ''connection refused''))"
  have h1: "uuid_UUID (object_id ?d) = Inr (UUID 1)"
    by (simp add: example_ids)
  have h2: "download ?env ([] @ [Print (UUID 1)]) (UUID 1) = Inr (TmpFile (u ''/tmp/1''))"
    by (simp add: example_download)
  have "process_data example_service ?env (u ''web'') ?d []
    = (None,
       [Print (UUID 1), Download (UUID 1), Enter (TmpFile (u ''/tmp/1'')),
        Open (u ''/tmp/1''), Read (u ''/tmp/1''), SplitText (u ''hello world''),
        AInfo (Loading 2) [(''object_id'', Uuid (UUID 1))],
        AAddTexts [u ''hello'', u ''world''] (build_metadata (u ''web'') (UUID 1) ?d 2),
        Close (u ''/tmp/1''), Exit (TmpFile (u ''/tmp/1'')),
        AException (OtherException ''connection refused'')
          [(''message'', Str (u ''exception in processing a plaintext file''))]])"
    by (simp add: run_eval example_ids)
  with C7_download_released_on_every_path [OF h1 h2, of example_service "u ''web''"]
  show ?thesis by simp
qed

text \<open>
  C8 says that a failed event leaves one error log whose context contains the
  \<^verbatim>\<open>object_id\<close> of the event. For an event whose object is not in the storage, the turn
  ends without an exception, makes no \<^verbatim>\<open>aadd_texts\<close> call and logs one exception, but
  the only keyword of that log is \<^verbatim>\<open>message\<close>: line 105 does not pass
  \<^verbatim>\<open>object_id=object_id\<close>, which the two info logs of lines 96 and 102 do.
\<close>

theorem C8_error_log_lacks_object_id:
  "process_message example_service (example_env example_files None)
      \<lparr>metadata = \<lparr>source = u ''web''\<rparr>,
       data = [example_event ''00000000-0000-0000-0000-000000000002'']\<rparr> []
    = (None,
       [Print (UUID 2), Download (UUID 2),
        AException (OtherException ''not found'')
          [(''message'', Str (u ''exception in processing a plaintext file''))]])
   \<and> map_of [(''message'', Str (u ''exception in processing a plaintext file''))] ''object_id''
       = None"
  by (simp add: run_eval example_ids)

text \<open>
  C10: the identifier is parsed first. When \<^verbatim>\<open>uuid.UUID\<close> raises, the turn has done nothing
  else; when it returns \<open>oid\<close>, the \<^verbatim>\<open>object_id\<close> of every metadata record that the turn
  sends is the object \<open>oid\<close>, whatever the spelling of the string that was received.
\<close>

theorem C10_metadata_holds_parsed_uuid:
  "case uuid_UUID (object_id d) of
     Inl e \<Rightarrow> process_data self env src d h = (Some e, [])
   | Inr oid \<Rightarrow>
       (\<forall>docs metas. AAddTexts docs metas \<in> set (snd (process_data self env src d h)) \<longrightarrow>
          (\<forall>m\<in>set metas. map_of m ''object_id'' = Some (Uuid oid)))"
  by (auto simp add: process_data_def try_body_def read_file_def index_text_def Let_def
                     build_metadata_def
           split: sum.splits option.splits prod.splits if_splits)

text \<open>
  The witness is an event whose identifier is written with braces and without hyphens:
  its records hold the same object as those of the hyphenated spelling.
\<close>

theorem C10_parsed_uuid_witness:
  "AAddTexts [u ''hello'', u ''world'']
     (build_metadata (u ''web'') (UUID 1)
        (example_event ''{00000000000000000000000000000001}'') 2)
     \<in> set (snd (process_data example_service (example_env example_files None) (u ''web'')
                   (example_event ''{00000000000000000000000000000001}'') []))
   \<and> map_of (build_metadata (u ''web'') (UUID 1)
                (example_event ''{00000000000000000000000000000001}'') 2 ! 0) ''object_id''
       = Some (Uuid (UUID 1))
   \<and> map_of (build_metadata (u ''web'') (UUID 1)
                (example_event ''{00000000000000000000000000000001}'') 2 ! 1) ''object_id''
       = Some (Uuid (UUID 1))
   \<and> uuid_UUID (object_id (example_event ''00000000-0000-0000-0000-000000000001''))
       = uuid_UUID (object_id (example_event ''{00000000000000000000000000000001}''))"
proof -
  let ?d = "example_event ''{00000000000000000000000000000001}''"
  let ?env = "example_env example_files None"
  have mem: "AAddTexts [u ''hello'', u ''world''] (build_metadata (u ''web'') (UUID 1) ?d 2)
     \<in> set (snd (process_data example_service ?env (u ''web'') ?d []))"
    by (simp add: run_eval example_ids)
  from C10_metadata_holds_parsed_uuid [of example_service ?env "u ''web''" ?d "[]"] mem
  have "\<forall>m\<in>set (build_metadata (u ''web'') (UUID 1) ?d 2).
          map_of m ''object_id'' = Some (Uuid (UUID 1))"
    by (simp add: example_ids)
  moreover have "set (build_metadata (u ''web'') (UUID 1) ?d 2)
      = {build_metadata (u ''web'') (UUID 1) ?d 2 ! 0, build_metadata (u ''web'') (UUID 1) ?d 2 ! 1}"
    by (simp add: build_metadata_def numeral_2_eq_2)
  ultimately show ?thesis using mem
    by (simp add: example_ids)
qed

end
